theory Spec2Isabelle
  imports Main "HOL-Library.Word"
begin

section \<open>The CipherLending ledger: data model\<close>

text \<open>
  A shallow embedding of the Solidity contract \<open>CipherLending\<close>. Value types are machine
  words of the width the contract declares. Identifiers (\<open>requestId\<close>, \<open>offerId\<close>,
  \<open>loanId\<close>, \<open>borrowerRequestId\<close>) are \<open>uint256\<close> indices into the three storage arrays;
  the only arithmetic on them is \<open>length - 1\<close> right after a \<open>push\<close> and the loop counters
  of \<open>findMatches\<close>, which stay below the array length, so nothing wraps and they are
  modelled as \<open>nat\<close>. The encrypted types \<open>euint32\<close>, \<open>ebool\<close> and \<open>externalEuint32\<close> are
  32-byte handles.
\<close>

type_synonym address = "160 word"
type_synonym uint256 = "256 word"
type_synonym uint32 = "32 word"
type_synonym bytes32 = "256 word"
type_synonym euint32 = bytes32
type_synonym ebool = bytes32
type_synonym externalEuint32 = bytes32
type_synonym bytes = "8 word list"

record BorrowerRequest =
  borrower :: address
  encryptedScore :: euint32
  amount :: uint256
  "term" :: uint32
  isActive :: bool

record LenderOffer =
  lender :: address
  borrowerRequestId :: nat
  amount :: uint256
  apr :: uint32
  "term" :: uint32
  isActive :: bool

record Loan =
  borrower :: address
  lender :: address
  amount :: uint256
  apr :: uint32
  "term" :: uint32
  startTime :: uint32
  isActive :: bool
  isRepaid :: bool

text \<open>
  The contract storage, together with the access-control list of the encrypted-value
  service (\<open>acl\<close>): the pairs (handle, principal) for which decryption has been granted.
  A Solidity mapping has a value at every key, zero where nothing was stored, so
  \<open>comparisonResults\<close> is a total function.
\<close>

record state =
  borrowerRequests :: "BorrowerRequest list"
  lenderOffers :: "LenderOffer list"
  loans :: "Loan list"
  nextLoanId :: nat
  comparisonResults :: "nat \<Rightarrow> uint32 \<Rightarrow> address \<Rightarrow> ebool"
  acl :: "(bytes32 \<times> address) set"

text \<open>The state of a freshly deployed contract.\<close>

definition init_state :: state where
  "init_state =
     \<lparr>borrowerRequests = [], lenderOffers = [], loans = [], nextLoanId = 0,
      comparisonResults = (\<lambda>_ _ _. 0), acl = {}\<rparr>"

text \<open>The call context: \<open>msg.sender\<close>, \<open>msg.value\<close>, \<open>block.timestamp\<close>, \<open>address(this)\<close>.\<close>

record env =
  msg_sender :: address
  msg_value :: uint256
  block_timestamp :: uint256
  this :: address

text \<open>
  A failed \<open>require\<close> reverts with its message; an out-of-range array access panics; the
  encrypted-value service reverts when it rejects an input proof.
\<close>

datatype error = Revert string | Panic | InvalidProof

datatype event =
    NewBorrowerRequest nat address uint256
  | NewLenderOffer nat nat address uint256
  | LoanCreated nat address address uint256
  | LoanRepaid nat uint256

subsection \<open>The encrypted-value service\<close>

text \<open>
  The library \<open>@fhevm/solidity\<close> is an external dependency. Its three computing
  operations are parameters of the model: \<open>FHE.fromExternal\<close> (which may reject the
  proof), \<open>FHE.asEuint32\<close> and \<open>FHE.ge\<close>.
\<close>

record fhe =
  fromExternal :: "externalEuint32 \<Rightarrow> bytes \<Rightarrow> address \<Rightarrow> euint32 option"
  asEuint32 :: "uint32 \<Rightarrow> euint32"
  ge :: "euint32 \<Rightarrow> euint32 \<Rightarrow> ebool"

text \<open>
  Modelled from the spec: \<open>FHE.allow\<close> and \<open>FHE.allowThis\<close> of the external library
  \<open>@fhevm/solidity\<close> are not part of the repository. Following the spec's
  \<open>grantDecrypt(handle, principal)\<close> and \<open>grantDecryptSelf(handle)\<close>, a grant records the
  pair (handle, principal) in the access-control list.
\<close>

definition allow :: "state \<Rightarrow> bytes32 \<Rightarrow> address \<Rightarrow> state" where
  "allow s h a = s\<lparr>acl := insert (h, a) (acl s)\<rparr>"

definition allowThis :: "env \<Rightarrow> state \<Rightarrow> bytes32 \<Rightarrow> state" where
  "allowThis e s h = allow s h (this e)"

section \<open>The operations\<close>

subsection \<open>submitBorrowerRequest\<close>

definition submitBorrowerRequest ::
  "fhe \<Rightarrow> env \<Rightarrow> state \<Rightarrow> externalEuint32 \<Rightarrow> uint256 \<Rightarrow> uint32 \<Rightarrow> bytes
     \<Rightarrow> error + (state \<times> event list)" where
  "submitBorrowerRequest F e s encScore amt trm inputProof =
     (if \<not> amt > 0 then Inl (Revert ''Amount must be greater than 0'')
      else if \<not> (trm > 0 \<and> trm \<le> 120) then Inl (Revert ''Term must be between 1-120 months'')
      else case fromExternal F encScore inputProof (msg_sender e) of
        None \<Rightarrow> Inl InvalidProof
      | Some score \<Rightarrow>
          let s1 = allowThis e s score;
              s2 = allow s1 score (msg_sender e);
              request = \<lparr>BorrowerRequest.borrower = msg_sender e,
                         encryptedScore = score,
                         BorrowerRequest.amount = amt,
                         BorrowerRequest.term = trm,
                         BorrowerRequest.isActive = True\<rparr>;
              s3 = s2\<lparr>borrowerRequests := borrowerRequests s2 @ [request]\<rparr>;
              requestId = length (borrowerRequests s3) - 1
          in Inr (s3, [NewBorrowerRequest requestId (msg_sender e) amt]))"

subsection \<open>findMatches\<close>

text \<open>
  The first loop scans the requests and writes the index of each active one into
  \<open>tempMatches\<close>; the second copies the first \<open>matchCount\<close> entries into the result. Every
  array access is bounds-checked, as in Solidity.
\<close>

function findMatches_scan ::
  "BorrowerRequest list \<Rightarrow> nat \<Rightarrow> nat list \<Rightarrow> nat \<Rightarrow> error + (nat list \<times> nat)" where
  "findMatches_scan rs i tempMatches matchCount =
     (if i < length rs then
        (if BorrowerRequest.isActive (rs ! i) then
           (if matchCount < length tempMatches
            then findMatches_scan rs (i + 1) (tempMatches[matchCount := i]) (matchCount + 1)
            else Inl Panic)
         else findMatches_scan rs (i + 1) tempMatches matchCount)
      else Inr (tempMatches, matchCount))"
  by pat_completeness auto
termination
  by (relation "measure (\<lambda>(rs, i, t, m). length rs - i)") auto

function findMatches_copy ::
  "nat list \<Rightarrow> nat \<Rightarrow> nat list \<Rightarrow> nat \<Rightarrow> error + nat list" where
  "findMatches_copy tempMatches matchCount matchingRequestIds j =
     (if j < matchCount then
        (if j < length tempMatches \<and> j < length matchingRequestIds
         then findMatches_copy tempMatches matchCount
                (matchingRequestIds[j := tempMatches ! j]) (j + 1)
         else Inl Panic)
      else Inr matchingRequestIds)"
  by pat_completeness auto
termination
  by (relation "measure (\<lambda>(t, m, out, j). m - j)") auto

text \<open>
  Both loops are recursive equations with no pattern on the left, so the simplifier
  unfolds them only where a proof asks for it.
\<close>

declare findMatches_scan.simps [simp del] findMatches_copy.simps [simp del]

definition findMatches :: "state \<Rightarrow> uint32 \<Rightarrow> error + nat list" where
  "findMatches s minScore =
     (case findMatches_scan (borrowerRequests s) 0
             (replicate (length (borrowerRequests s)) 0) 0 of
        Inl err \<Rightarrow> Inl err
      | Inr (tempMatches, matchCount) \<Rightarrow>
          findMatches_copy tempMatches matchCount (replicate matchCount 0) 0)"

subsection \<open>checkScoreMatch and getComparisonResult\<close>

definition checkScoreMatch ::
  "fhe \<Rightarrow> env \<Rightarrow> state \<Rightarrow> nat \<Rightarrow> uint32 \<Rightarrow> error + (state \<times> ebool)" where
  "checkScoreMatch F e s requestId minScore =
     (if \<not> requestId < length (borrowerRequests s) then Inl (Revert ''Invalid request ID'')
      else let request = borrowerRequests s ! requestId in
        if \<not> BorrowerRequest.isActive request then Inl (Revert ''Request is not active'')
        else
          let minScoreEncrypted = asEuint32 F minScore;
              comparisonResult = ge F (encryptedScore request) minScoreEncrypted;
              cr = comparisonResults s;
              s1 = s\<lparr>comparisonResults :=
                       cr(requestId := (cr requestId)(minScore :=
                         (cr requestId minScore)(msg_sender e := comparisonResult)))\<rparr>;
              s2 = allowThis e s1 comparisonResult;
              s3 = allow s2 comparisonResult (msg_sender e)
          in Inr (s3, comparisonResult))"

definition getComparisonResult :: "state \<Rightarrow> nat \<Rightarrow> uint32 \<Rightarrow> address \<Rightarrow> ebool" where
  "getComparisonResult s requestId minScore caller = comparisonResults s requestId minScore caller"

definition getEncryptedScore :: "state \<Rightarrow> nat \<Rightarrow> error + euint32" where
  "getEncryptedScore s requestId =
     (if \<not> requestId < length (borrowerRequests s) then Inl (Revert ''Invalid request ID'')
      else Inr (encryptedScore (borrowerRequests s ! requestId)))"

subsection \<open>submitLenderOffer\<close>

definition submitLenderOffer ::
  "env \<Rightarrow> state \<Rightarrow> nat \<Rightarrow> uint256 \<Rightarrow> uint32 \<Rightarrow> uint32 \<Rightarrow> error + (state \<times> event list)" where
  "submitLenderOffer e s reqId amt rate trm =
     (if \<not> reqId < length (borrowerRequests s) then Inl (Revert ''Invalid request ID'')
      else if \<not> BorrowerRequest.isActive (borrowerRequests s ! reqId)
        then Inl (Revert ''Request is not active'')
      else if \<not> amt > 0 then Inl (Revert ''Amount must be greater than 0'')
      else if \<not> (rate > 0 \<and> rate \<le> 10000)
        then Inl (Revert ''APR must be between 1-10000 basis points'')
      else if \<not> (trm > 0 \<and> trm \<le> 120) then Inl (Revert ''Term must be between 1-120 months'')
      else
        let offer = \<lparr>LenderOffer.lender = msg_sender e,
                     borrowerRequestId = reqId,
                     LenderOffer.amount = amt,
                     LenderOffer.apr = rate,
                     LenderOffer.term = trm,
                     LenderOffer.isActive = True\<rparr>;
            s1 = s\<lparr>lenderOffers := lenderOffers s @ [offer]\<rparr>;
            offerId = length (lenderOffers s1) - 1
        in Inr (s1, [NewLenderOffer offerId reqId (msg_sender e) amt]))"

subsection \<open>acceptLoanOffer\<close>

text \<open>
  \<open>offer\<close> and \<open>request\<close> are storage references into two different arrays; the writes
  through them are the two list updates, and the event reads the fields back from storage
  after the writes.
\<close>

definition acceptLoanOffer :: "env \<Rightarrow> state \<Rightarrow> nat \<Rightarrow> error + (state \<times> event list)" where
  "acceptLoanOffer e s offerId =
     (if \<not> offerId < length (lenderOffers s) then Inl (Revert ''Invalid offer ID'')
      else let offer = lenderOffers s ! offerId in
        if \<not> LenderOffer.isActive offer then Inl (Revert ''Offer is not active'')
        else if \<not> borrowerRequestId offer < length (borrowerRequests s) then Inl Panic
        else let rid = borrowerRequestId offer; request = borrowerRequests s ! rid in
          if \<not> BorrowerRequest.isActive request
            then Inl (Revert ''Borrower request is not active'')
          else if \<not> BorrowerRequest.borrower request = msg_sender e
            then Inl (Revert ''Only borrower can accept offer'')
          else if \<not> msg_value e = 0 then Inl (Revert ''Do not send ETH directly'')
          else
            let loan = \<lparr>Loan.borrower = BorrowerRequest.borrower request,
                        Loan.lender = LenderOffer.lender offer,
                        Loan.amount = LenderOffer.amount offer,
                        Loan.apr = LenderOffer.apr offer,
                        Loan.term = LenderOffer.term offer,
                        startTime = ucast (block_timestamp e),
                        Loan.isActive = True,
                        isRepaid = False\<rparr>;
                s1 = s\<lparr>loans := loans s @ [loan]\<rparr>;
                loanId = length (loans s1) - 1;
                s2 = s1\<lparr>borrowerRequests := (borrowerRequests s1)
                         [rid := (borrowerRequests s1 ! rid)\<lparr>BorrowerRequest.isActive := False\<rparr>]\<rparr>;
                s3 = s2\<lparr>lenderOffers := (lenderOffers s2)
                         [offerId := (lenderOffers s2 ! offerId)\<lparr>LenderOffer.isActive := False\<rparr>]\<rparr>
            in Inr (s3, [LoanCreated loanId
                           (BorrowerRequest.borrower (borrowerRequests s3 ! rid))
                           (LenderOffer.lender (lenderOffers s3 ! offerId))
                           (LenderOffer.amount (lenderOffers s3 ! offerId))]))"

subsection \<open>The read-only accessors\<close>

definition getBorrowerRequestsCount :: "state \<Rightarrow> nat" where
  "getBorrowerRequestsCount s = length (borrowerRequests s)"

definition getLenderOffersCount :: "state \<Rightarrow> nat" where
  "getLenderOffersCount s = length (lenderOffers s)"

definition getLoansCount :: "state \<Rightarrow> nat" where
  "getLoansCount s = length (loans s)"

definition getBorrowerRequest ::
  "state \<Rightarrow> nat \<Rightarrow> error + (address \<times> uint256 \<times> uint32 \<times> bool)" where
  "getBorrowerRequest s requestId =
     (if \<not> requestId < length (borrowerRequests s) then Inl (Revert ''Invalid request ID'')
      else let request = borrowerRequests s ! requestId in
        Inr (BorrowerRequest.borrower request, BorrowerRequest.amount request,
             BorrowerRequest.term request, BorrowerRequest.isActive request))"

definition getLenderOffer ::
  "state \<Rightarrow> nat \<Rightarrow> error + (address \<times> nat \<times> uint256 \<times> uint32 \<times> uint32 \<times> bool)" where
  "getLenderOffer s offerId =
     (if \<not> offerId < length (lenderOffers s) then Inl (Revert ''Invalid offer ID'')
      else let offer = lenderOffers s ! offerId in
        Inr (LenderOffer.lender offer, borrowerRequestId offer, LenderOffer.amount offer,
             LenderOffer.apr offer, LenderOffer.term offer, LenderOffer.isActive offer))"

definition getLoan ::
  "state \<Rightarrow> nat
     \<Rightarrow> error + (address \<times> address \<times> uint256 \<times> uint32 \<times> uint32 \<times> uint32 \<times> bool \<times> bool)" where
  "getLoan s loanId =
     (if \<not> loanId < length (loans s) then Inl (Revert ''Invalid loan ID'')
      else let loan = loans s ! loanId in
        Inr (Loan.borrower loan, Loan.lender loan, Loan.amount loan, Loan.apr loan,
             Loan.term loan, startTime loan, Loan.isActive loan, isRepaid loan))"

section \<open>Transactions\<close>

text \<open>
  One external call: the function selected and its arguments. Only \<open>acceptLoanOffer\<close> is
  \<open>payable\<close>; the compiler-generated entry of every other function reverts, with no
  message, on a call that carries value, before the body runs. A function declared without
  \<open>returns\<close> hands back no data (\<open>Void\<close>). The getters that the compiler generates for the
  public state variables only read the state and are left out.
\<close>

datatype call =
    SubmitBorrowerRequest externalEuint32 uint256 uint32 bytes
  | FindMatches uint32
  | CheckScoreMatch nat uint32
  | GetComparisonResult nat uint32 address
  | GetEncryptedScore nat
  | SubmitLenderOffer nat uint256 uint32 uint32
  | AcceptLoanOffer nat
  | GetBorrowerRequestsCount
  | GetLenderOffersCount
  | GetLoansCount
  | GetBorrowerRequest nat
  | GetLenderOffer nat
  | GetLoan nat

datatype retval =
    Void
  | RetUint nat
  | RetIds "nat list"
  | RetHandle bytes32
  | RetRequest "address \<times> uint256 \<times> uint32 \<times> bool"
  | RetOffer "address \<times> nat \<times> uint256 \<times> uint32 \<times> uint32 \<times> bool"
  | RetLoan "address \<times> address \<times> uint256 \<times> uint32 \<times> uint32 \<times> uint32 \<times> bool \<times> bool"

fun payable :: "call \<Rightarrow> bool" where
  "payable (AcceptLoanOffer _) = True"
| "payable _ = False"

definition view_result :: "state \<Rightarrow> ('a \<Rightarrow> retval) \<Rightarrow> error + 'a
    \<Rightarrow> error + (state \<times> event list \<times> retval)" where
  "view_result s wrap r = (case r of Inl err \<Rightarrow> Inl err | Inr v \<Rightarrow> Inr (s, [], wrap v))"

definition no_return :: "error + (state \<times> event list) \<Rightarrow> error + (state \<times> event list \<times> retval)" where
  "no_return r = (case r of Inl err \<Rightarrow> Inl err | Inr (s', evs) \<Rightarrow> Inr (s', evs, Void))"

fun dispatch :: "fhe \<Rightarrow> env \<Rightarrow> state \<Rightarrow> call \<Rightarrow> error + (state \<times> event list \<times> retval)" where
  "dispatch F e s (SubmitBorrowerRequest encScore amt trm inputProof) =
     no_return (submitBorrowerRequest F e s encScore amt trm inputProof)"
| "dispatch F e s (FindMatches minScore) = view_result s RetIds (findMatches s minScore)"
| "dispatch F e s (CheckScoreMatch requestId minScore) =
     (case checkScoreMatch F e s requestId minScore of
        Inl err \<Rightarrow> Inl err
      | Inr (s', h) \<Rightarrow> Inr (s', [], RetHandle h))"
| "dispatch F e s (GetComparisonResult requestId minScore caller) =
     Inr (s, [], RetHandle (getComparisonResult s requestId minScore caller))"
| "dispatch F e s (GetEncryptedScore requestId) =
     view_result s RetHandle (getEncryptedScore s requestId)"
| "dispatch F e s (SubmitLenderOffer reqId amt rate trm) =
     no_return (submitLenderOffer e s reqId amt rate trm)"
| "dispatch F e s (AcceptLoanOffer offerId) = no_return (acceptLoanOffer e s offerId)"
| "dispatch F e s GetBorrowerRequestsCount = Inr (s, [], RetUint (getBorrowerRequestsCount s))"
| "dispatch F e s GetLenderOffersCount = Inr (s, [], RetUint (getLenderOffersCount s))"
| "dispatch F e s GetLoansCount = Inr (s, [], RetUint (getLoansCount s))"
| "dispatch F e s (GetBorrowerRequest requestId) =
     view_result s RetRequest (getBorrowerRequest s requestId)"
| "dispatch F e s (GetLenderOffer offerId) = view_result s RetOffer (getLenderOffer s offerId)"
| "dispatch F e s (GetLoan loanId) = view_result s RetLoan (getLoan s loanId)"

definition exec :: "fhe \<Rightarrow> env \<Rightarrow> state \<Rightarrow> call \<Rightarrow> error + (state \<times> event list \<times> retval)" where
  "exec F e s c =
     (if \<not> payable c \<and> \<not> msg_value e = 0 then Inl (Revert [])
      else dispatch F e s c)"

text \<open>A reverted transaction leaves the state as it was.\<close>

definition transact :: "fhe \<Rightarrow> state \<Rightarrow> env \<times> call \<Rightarrow> state" where
  "transact F s tx =
     (case exec F (fst tx) s (snd tx) of Inl _ \<Rightarrow> s | Inr (s', _, _) \<Rightarrow> s')"

fun run :: "fhe \<Rightarrow> state \<Rightarrow> (env \<times> call) list \<Rightarrow> state" where
  "run F s [] = s"
| "run F s (tx # txs) = run F (transact F s tx) txs"

section \<open>Well-formed references\<close>

text \<open>
  Every offer names a request that exists. \<open>submitLenderOffer\<close> checks it at creation
  and requests are never removed; \<open>acceptLoanOffer\<close> relies on it when it resolves the
  offer's request.
\<close>

definition offers_ok :: "state \<Rightarrow> bool" where
  "offers_ok s =
     list_all (\<lambda>offer. borrowerRequestId offer < length (borrowerRequests s)) (lenderOffers s)"

text \<open>The filter of \<open>findMatches\<close>: the request at index \<open>k\<close> is active.\<close>

abbreviation active_at :: "BorrowerRequest list \<Rightarrow> nat \<Rightarrow> bool" where
  "active_at rs k \<equiv> BorrowerRequest.isActive (rs ! k)"

section \<open>A concrete scenario\<close>

text \<open>
  A test double for the encrypted-value service, in which a handle is the plaintext it
  stands for, three principals, and the states of the lending flow: Alice's request,
  two offers on it by Bob and Carol, and the loan made when Alice accepts Bob's offer.
\<close>

definition mock_fhe :: fhe where
  "mock_fhe = \<lparr>fromExternal = (\<lambda>h p a. if p = [] then None else Some h),
               asEuint32 = ucast,
               ge = (\<lambda>a b. if b \<le> a then 1 else 0)\<rparr>"

definition alice :: address where "alice = 0xA11CE"
definition bob :: address where "bob = 0xB0B"
definition carol :: address where "carol = 0xCA401"
definition ledger :: address where "ledger = 0x1ED6E4"

definition call_env :: "address \<Rightarrow> env" where
  "call_env a = \<lparr>msg_sender = a, msg_value = 0, block_timestamp = 1700000000, this = ledger\<rparr>"

definition req0 :: BorrowerRequest where
  "req0 = \<lparr>BorrowerRequest.borrower = alice, encryptedScore = 750,
           BorrowerRequest.amount = 5000, BorrowerRequest.term = 12,
           BorrowerRequest.isActive = True\<rparr>"

definition offerA :: LenderOffer where
  "offerA = \<lparr>LenderOffer.lender = bob, borrowerRequestId = 0, LenderOffer.amount = 5000,
             LenderOffer.apr = 500, LenderOffer.term = 12, LenderOffer.isActive = True\<rparr>"

definition offerB :: LenderOffer where
  "offerB = \<lparr>LenderOffer.lender = carol, borrowerRequestId = 0, LenderOffer.amount = 7000,
             LenderOffer.apr = 650, LenderOffer.term = 24, LenderOffer.isActive = True\<rparr>"

definition loan0 :: Loan where
  "loan0 = \<lparr>Loan.borrower = alice, Loan.lender = bob, Loan.amount = 5000, Loan.apr = 500,
            Loan.term = 12, startTime = 1700000000, Loan.isActive = True, isRepaid = False\<rparr>"

definition st_request :: state where
  "st_request = init_state\<lparr>borrowerRequests := [req0], acl := {(750, ledger), (750, alice)}\<rparr>"

definition st_offers :: state where
  "st_offers = st_request\<lparr>lenderOffers := [offerA, offerB]\<rparr>"

definition st_loan :: state where
  "st_loan = st_offers\<lparr>borrowerRequests := [req0\<lparr>BorrowerRequest.isActive := False\<rparr>],
                        lenderOffers := [offerA\<lparr>LenderOffer.isActive := False\<rparr>, offerB],
                        loans := [loan0]\<rparr>"

text \<open>After the loan, Bob posts a request of his own: one closed request, one active.\<close>

definition req1 :: BorrowerRequest where
  "req1 = \<lparr>BorrowerRequest.borrower = bob, encryptedScore = 640,
           BorrowerRequest.amount = 900, BorrowerRequest.term = 6,
           BorrowerRequest.isActive = True\<rparr>"

definition st_second :: state where
  "st_second = st_loan\<lparr>borrowerRequests := [req0\<lparr>BorrowerRequest.isActive := False\<rparr>, req1],
                       acl := {(750, ledger), (750, alice), (640, ledger), (640, bob)}\<rparr>"

lemmas scenario_defs = mock_fhe_def alice_def bob_def carol_def ledger_def call_env_def
  req0_def offerA_def offerB_def loan0_def st_request_def st_offers_def st_loan_def init_state_def
  req1_def st_second_def

lemmas op_defs = submitBorrowerRequest_def checkScoreMatch_def submitLenderOffer_def
  acceptLoanOffer_def allow_def allowThis_def view_result_def no_return_def Let_def

section \<open>The scenario states are reachable\<close>

lemma st_request_reachable:
  "run mock_fhe init_state [(call_env alice, SubmitBorrowerRequest 750 5000 12 [1])] = st_request"
  by (simp add: transact_def exec_def no_return_def submitBorrowerRequest_def allow_def
        allowThis_def Let_def scenario_defs insert_commute)

lemma st_offers_reachable:
  "run mock_fhe st_request [(call_env bob, SubmitLenderOffer 0 5000 500 12),
     (call_env carol, SubmitLenderOffer 0 7000 650 24)] = st_offers"
  by (simp add: transact_def exec_def no_return_def submitLenderOffer_def Let_def scenario_defs)

lemma st_loan_reachable:
  "run mock_fhe st_offers [(call_env alice, AcceptLoanOffer 0)] = st_loan"
  by (simp add: transact_def exec_def no_return_def acceptLoanOffer_def Let_def scenario_defs)

lemma st_second_reachable:
  "run mock_fhe st_loan [(call_env bob, SubmitBorrowerRequest 640 900 6 [1])] = st_second"
  by (simp add: transact_def exec_def no_return_def submitBorrowerRequest_def allow_def
        allowThis_def Let_def scenario_defs insert_commute)

lemma st_offers_from_init:
  "run mock_fhe init_state
     [(call_env alice, SubmitBorrowerRequest 750 5000 12 [1]),
      (call_env bob, SubmitLenderOffer 0 5000 500 12),
      (call_env carol, SubmitLenderOffer 0 7000 650 24)] = st_offers"
  using st_request_reachable st_offers_reachable by simp

lemma scenario_accept:
  "acceptLoanOffer (call_env alice) st_offers 0 = Inr (st_loan, [LoanCreated 0 alice bob 5000])"
  by (simp add: acceptLoanOffer_def Let_def scenario_defs)

lemma scenario_exec_request:
  "exec mock_fhe (call_env alice) init_state (SubmitBorrowerRequest 750 5000 12 [1])
     = Inr (st_request, [NewBorrowerRequest 0 alice 5000], Void)"
  by (simp add: exec_def no_return_def submitBorrowerRequest_def allow_def
        allowThis_def Let_def scenario_defs insert_commute)

lemma scenario_exec_offer:
  "exec mock_fhe (call_env bob) st_request (SubmitLenderOffer 0 5000 500 12)
     = Inr (st_request\<lparr>lenderOffers := [offerA]\<rparr>, [NewLenderOffer 0 0 bob 5000], Void)"
  by (simp add: exec_def no_return_def submitLenderOffer_def Let_def scenario_defs)

lemma scenario_exec_accept:
  "exec mock_fhe (call_env alice) st_offers (AcceptLoanOffer 0)
     = Inr (st_loan, [LoanCreated 0 alice bob 5000], Void)"
  using scenario_accept by (simp add: exec_def no_return_def call_env_def)

section \<open>One transaction, and runs of transactions\<close>

text \<open>
  What a successful call can do to the two collections that carry an \<open>isActive\<close> flag:
  they only grow, a closed record is never written again, an offer on a closed request
  is never written again, and a record is active when it is created.
\<close>

lemma exec_requests_length:
  assumes "exec F e s c = Inr (s', evs, rv)"
  shows "length (borrowerRequests s) \<le> length (borrowerRequests s')"
  using assms
  by (cases c) (auto simp: exec_def op_defs split: if_splits sum.splits option.splits)

lemma exec_offers_length:
  assumes "exec F e s c = Inr (s', evs, rv)"
  shows "length (lenderOffers s) \<le> length (lenderOffers s')"
  using assms
  by (cases c) (auto simp: exec_def op_defs split: if_splits sum.splits option.splits)

lemma exec_request_closed:
  assumes "exec F e s c = Inr (s', evs, rv)"
    and "i < length (borrowerRequests s)"
    and "\<not> BorrowerRequest.isActive (borrowerRequests s ! i)"
  shows "borrowerRequests s' ! i = borrowerRequests s ! i"
  using assms
  by (cases c)
     (auto simp: exec_def op_defs nth_append nth_list_update
           split: if_splits sum.splits option.splits)

lemma exec_offer_closed:
  assumes "exec F e s c = Inr (s', evs, rv)"
    and "j < length (lenderOffers s)"
    and "\<not> LenderOffer.isActive (lenderOffers s ! j)"
  shows "lenderOffers s' ! j = lenderOffers s ! j"
  using assms
  by (cases c)
     (auto simp: exec_def op_defs nth_append nth_list_update
           split: if_splits sum.splits option.splits)

lemma exec_offer_of_closed_request:
  assumes "exec F e s c = Inr (s', evs, rv)"
    and "j < length (lenderOffers s)"
    and "borrowerRequestId (lenderOffers s ! j) < length (borrowerRequests s)"
    and "\<not> BorrowerRequest.isActive (borrowerRequests s ! borrowerRequestId (lenderOffers s ! j))"
  shows "lenderOffers s' ! j = lenderOffers s ! j"
  using assms
  by (cases c)
     (auto simp: exec_def op_defs nth_append nth_list_update
           split: if_splits sum.splits option.splits)

lemma exec_request_created:
  assumes "exec F e s c = Inr (s', evs, rv)"
    and "i < length (borrowerRequests s')"
    and "length (borrowerRequests s) \<le> i"
  shows "BorrowerRequest.isActive (borrowerRequests s' ! i)"
  using assms
  by (cases c)
     (auto simp: exec_def op_defs nth_append nth_list_update
           split: if_splits sum.splits option.splits)

lemma exec_offer_created:
  assumes "exec F e s c = Inr (s', evs, rv)"
    and "j < length (lenderOffers s')"
    and "length (lenderOffers s) \<le> j"
  shows "LenderOffer.isActive (lenderOffers s' ! j)"
  using assms
  by (cases c)
     (auto simp: exec_def op_defs nth_append nth_list_update
           split: if_splits sum.splits option.splits)

lemma exec_offers_ok:
  assumes "exec F e s c = Inr (s', evs, rv)" and "offers_ok s"
  shows "offers_ok s'"
  using assms
  by (cases c)
     (auto simp: exec_def op_defs offers_ok_def list_all_length nth_append nth_list_update
           split: if_splits sum.splits option.splits)


lemma transact_cases:
  "transact F s tx = s \<or> (\<exists>evs rv. exec F (fst tx) s (snd tx) = Inr (transact F s tx, evs, rv))"
  by (auto simp: transact_def split: sum.splits)

lemma transact_request_closed:
  assumes "i < length (borrowerRequests s)"
    and "\<not> BorrowerRequest.isActive (borrowerRequests s ! i)"
  shows "i < length (borrowerRequests (transact F s tx))
    \<and> borrowerRequests (transact F s tx) ! i = borrowerRequests s ! i"
  using transact_cases [of F s tx] assms
  by (auto dest: exec_requests_length exec_request_closed)

lemma transact_offer_closed:
  assumes "j < length (lenderOffers s)"
    and "\<not> LenderOffer.isActive (lenderOffers s ! j)"
  shows "j < length (lenderOffers (transact F s tx))
    \<and> lenderOffers (transact F s tx) ! j = lenderOffers s ! j"
  using transact_cases [of F s tx] assms
  by (auto dest: exec_offers_length exec_offer_closed)

lemma transact_offer_of_closed_request:
  assumes "j < length (lenderOffers s)"
    and "borrowerRequestId (lenderOffers s ! j) < length (borrowerRequests s)"
    and "\<not> BorrowerRequest.isActive (borrowerRequests s ! borrowerRequestId (lenderOffers s ! j))"
  shows "j < length (lenderOffers (transact F s tx))
    \<and> lenderOffers (transact F s tx) ! j = lenderOffers s ! j"
  using transact_cases [of F s tx] assms
  by (auto dest: exec_offers_length exec_offer_of_closed_request)

lemma run_request_closed:
  "i < length (borrowerRequests s) \<Longrightarrow> \<not> BorrowerRequest.isActive (borrowerRequests s ! i)
   \<Longrightarrow> i < length (borrowerRequests (run F s txs))
       \<and> borrowerRequests (run F s txs) ! i = borrowerRequests s ! i"
proof (induction txs arbitrary: s)
  case Nil
  then show ?case by simp
next
  case (Cons tx txs)
  have step: "i < length (borrowerRequests (transact F s tx))
      \<and> borrowerRequests (transact F s tx) ! i = borrowerRequests s ! i"
    using Cons.prems by (rule transact_request_closed)
  then have "i < length (borrowerRequests (run F (transact F s tx) txs))
      \<and> borrowerRequests (run F (transact F s tx) txs) ! i = borrowerRequests (transact F s tx) ! i"
    using Cons.prems by (intro Cons.IH) simp_all
  with step show ?case by simp
qed

lemma run_offer_closed:
  "j < length (lenderOffers s) \<Longrightarrow> \<not> LenderOffer.isActive (lenderOffers s ! j)
   \<Longrightarrow> j < length (lenderOffers (run F s txs))
       \<and> lenderOffers (run F s txs) ! j = lenderOffers s ! j"
proof (induction txs arbitrary: s)
  case Nil
  then show ?case by simp
next
  case (Cons tx txs)
  have step: "j < length (lenderOffers (transact F s tx))
      \<and> lenderOffers (transact F s tx) ! j = lenderOffers s ! j"
    using Cons.prems by (rule transact_offer_closed)
  then have "j < length (lenderOffers (run F (transact F s tx) txs))
      \<and> lenderOffers (run F (transact F s tx) txs) ! j = lenderOffers (transact F s tx) ! j"
    using Cons.prems by (intro Cons.IH) simp_all
  with step show ?case by simp
qed

lemma run_offer_of_closed_request:
  "j < length (lenderOffers s)
   \<Longrightarrow> borrowerRequestId (lenderOffers s ! j) < length (borrowerRequests s)
   \<Longrightarrow> \<not> BorrowerRequest.isActive (borrowerRequests s ! borrowerRequestId (lenderOffers s ! j))
   \<Longrightarrow> j < length (lenderOffers (run F s txs))
       \<and> lenderOffers (run F s txs) ! j = lenderOffers s ! j"
proof (induction txs arbitrary: s)
  case Nil
  then show ?case by simp
next
  case (Cons tx txs)
  let ?s = "transact F s tx"
  have offer: "j < length (lenderOffers ?s) \<and> lenderOffers ?s ! j = lenderOffers s ! j"
    using Cons.prems by (rule transact_offer_of_closed_request)
  have request: "borrowerRequestId (lenderOffers s ! j) < length (borrowerRequests ?s)
      \<and> borrowerRequests ?s ! borrowerRequestId (lenderOffers s ! j)
          = borrowerRequests s ! borrowerRequestId (lenderOffers s ! j)"
    using Cons.prems(2,3) by (rule transact_request_closed)
  have "j < length (lenderOffers (run F ?s txs))
      \<and> lenderOffers (run F ?s txs) ! j = lenderOffers ?s ! j"
    using offer request Cons.prems by (intro Cons.IH) simp_all
  with offer show ?case by simp
qed

lemma transact_offers_ok: "offers_ok s \<Longrightarrow> offers_ok (transact F s tx)"
  using transact_cases [of F s tx] by (auto dest: exec_offers_ok)

lemma run_offers_ok: "offers_ok s \<Longrightarrow> offers_ok (run F s txs)"
  by (induction txs arbitrary: s) (simp_all add: transact_offers_ok)

lemma reachable_offers_ok: "offers_ok (run F init_state txs)"
  by (rule run_offers_ok) (simp add: offers_ok_def init_state_def)

section \<open>Request submission\<close>

text \<open>
  Claim C5. \<open>submitBorrowerRequest\<close> checks the amount first and the term second: it fails
  with ``Amount must be greater than 0'' (the spec's \<open>InvalidAmount\<close>) unless the amount is
  positive, and with ``Term must be between 1-120 months'' (\<open>InvalidTerm\<close>) unless the term
  lies in 1..120. When both checks pass and the encrypted-value service accepts the input,
  the call appends exactly one request, with the caller as borrower, the given amount and
  term and \<open>isActive = True\<close>, and leaves offers, loans and the comparison cache as they
  were; \<open>getBorrowerRequest\<close> on the new id returns that borrower, amount, term and \<open>True\<close>.
\<close>

theorem submitBorrowerRequest_spec:
  fixes F e s encScore amt trm inputProof score
  defines "R \<equiv> submitBorrowerRequest F e s encScore amt trm inputProof"
  shows "(\<not> 0 < amt \<longrightarrow> R = Inl (Revert ''Amount must be greater than 0''))
    \<and> (0 < amt \<and> \<not> (1 \<le> trm \<and> trm \<le> 120)
         \<longrightarrow> R = Inl (Revert ''Term must be between 1-120 months''))
    \<and> (0 < amt \<and> 1 \<le> trm \<and> trm \<le> 120
          \<and> fromExternal F encScore inputProof (msg_sender e) = Some score \<longrightarrow>
         (\<exists>s'. R = Inr (s', [NewBorrowerRequest (length (borrowerRequests s)) (msg_sender e) amt])
            \<and> borrowerRequests s' = borrowerRequests s @
                 [\<lparr>BorrowerRequest.borrower = msg_sender e, encryptedScore = score,
                   BorrowerRequest.amount = amt, BorrowerRequest.term = trm,
                   BorrowerRequest.isActive = True\<rparr>]
            \<and> lenderOffers s' = lenderOffers s \<and> loans s' = loans s
            \<and> comparisonResults s' = comparisonResults s
            \<and> getBorrowerRequestsCount s' = getBorrowerRequestsCount s + 1
            \<and> getBorrowerRequest s' (length (borrowerRequests s))
                = Inr (msg_sender e, amt, trm, True)))"
  by (auto simp: R_def submitBorrowerRequest_def allow_def allowThis_def Let_def
        getBorrowerRequestsCount_def getBorrowerRequest_def word_greater_zero_iff
        word_le_def word_less_def)

theorem submitBorrowerRequest_spec_witness:
  "submitBorrowerRequest mock_fhe (call_env alice) st_request 750 0 12 [1]
     = Inl (Revert ''Amount must be greater than 0'')
   \<and> submitBorrowerRequest mock_fhe (call_env alice) st_request 750 5000 0 [1]
     = Inl (Revert ''Term must be between 1-120 months'')
   \<and> submitBorrowerRequest mock_fhe (call_env alice) st_request 750 5000 121 [1]
     = Inl (Revert ''Term must be between 1-120 months'')
   \<and> getBorrowerRequest
       (fst (projr (submitBorrowerRequest mock_fhe (call_env bob) st_request 640 900 1 [1]))) 1
     = Inr (bob, 900, 1, True)
   \<and> getBorrowerRequest
       (fst (projr (submitBorrowerRequest mock_fhe (call_env bob) st_request 640 900 120 [1]))) 1
     = Inr (bob, 900, 120, True)"
  using submitBorrowerRequest_spec [where amt = 0 and trm = 12 and F = mock_fhe
          and e = "call_env alice" and s = st_request and encScore = 750 and inputProof = "[1]"]
        submitBorrowerRequest_spec [where amt = 5000 and trm = 0 and F = mock_fhe
          and e = "call_env alice" and s = st_request and encScore = 750 and inputProof = "[1]"]
        submitBorrowerRequest_spec [where amt = 5000 and trm = 121 and F = mock_fhe
          and e = "call_env alice" and s = st_request and encScore = 750 and inputProof = "[1]"]
        submitBorrowerRequest_spec [where amt = 900 and trm = 1 and F = mock_fhe
          and e = "call_env bob" and s = st_request and encScore = 640 and inputProof = "[1]"
          and score = 640]
        submitBorrowerRequest_spec [where amt = 900 and trm = 120 and F = mock_fhe
          and e = "call_env bob" and s = st_request and encScore = 640 and inputProof = "[1]"
          and score = 640]
  by (auto simp: scenario_defs)

section \<open>Offer submission\<close>

text \<open>
  Claim C6. \<open>submitLenderOffer\<close> runs its five checks in the order of the claim: the
  request id (``Invalid request ID'', the spec's \<open>InvalidRequest\<close>), the request's activity
  (``Request is not active'', \<open>InactiveRequest\<close>), the amount (\<open>InvalidAmount\<close>), the rate
  in 1..10000 basis points (\<open>InvalidApr\<close>) and the term in 1..120 (\<open>InvalidTerm\<close>). A failed
  call leaves the state as it was. When every check passes, the state changes only by one
  appended offer: active, referencing the request, with the caller as lender and the given
  amount, rate and term.
\<close>

theorem submitLenderOffer_spec:
  fixes F e s reqId amt rate trm
  defines "R \<equiv> submitLenderOffer e s reqId amt rate trm"
  shows "(\<not> reqId < length (borrowerRequests s) \<longrightarrow> R = Inl (Revert ''Invalid request ID''))
    \<and> (reqId < length (borrowerRequests s)
          \<and> \<not> BorrowerRequest.isActive (borrowerRequests s ! reqId)
         \<longrightarrow> R = Inl (Revert ''Request is not active''))
    \<and> (reqId < length (borrowerRequests s)
          \<and> BorrowerRequest.isActive (borrowerRequests s ! reqId) \<and> \<not> 0 < amt
         \<longrightarrow> R = Inl (Revert ''Amount must be greater than 0''))
    \<and> (reqId < length (borrowerRequests s)
          \<and> BorrowerRequest.isActive (borrowerRequests s ! reqId) \<and> 0 < amt
          \<and> \<not> (1 \<le> rate \<and> rate \<le> 10000)
         \<longrightarrow> R = Inl (Revert ''APR must be between 1-10000 basis points''))
    \<and> (reqId < length (borrowerRequests s)
          \<and> BorrowerRequest.isActive (borrowerRequests s ! reqId) \<and> 0 < amt
          \<and> 1 \<le> rate \<and> rate \<le> 10000 \<and> \<not> (1 \<le> trm \<and> trm \<le> 120)
         \<longrightarrow> R = Inl (Revert ''Term must be between 1-120 months''))
    \<and> (isl R \<longrightarrow> transact F s (e, SubmitLenderOffer reqId amt rate trm) = s)
    \<and> (reqId < length (borrowerRequests s)
          \<and> BorrowerRequest.isActive (borrowerRequests s ! reqId) \<and> 0 < amt
          \<and> 1 \<le> rate \<and> rate \<le> 10000 \<and> 1 \<le> trm \<and> trm \<le> 120
         \<longrightarrow> R = Inr (s\<lparr>lenderOffers := lenderOffers s @
                           [\<lparr>LenderOffer.lender = msg_sender e, borrowerRequestId = reqId,
                             LenderOffer.amount = amt, LenderOffer.apr = rate,
                             LenderOffer.term = trm, LenderOffer.isActive = True\<rparr>]\<rparr>,
                      [NewLenderOffer (length (lenderOffers s)) reqId (msg_sender e) amt]))"
  by (auto simp: R_def submitLenderOffer_def Let_def transact_def exec_def no_return_def
        word_greater_zero_iff word_le_def word_less_def split: sum.splits)

theorem submitLenderOffer_spec_witness:
  "submitLenderOffer (call_env bob) st_request 1 5000 500 12 = Inl (Revert ''Invalid request ID'')
   \<and> submitLenderOffer (call_env bob) st_loan 0 5000 500 12
       = Inl (Revert ''Request is not active'')
   \<and> transact mock_fhe st_loan (call_env bob, SubmitLenderOffer 0 5000 500 12) = st_loan
   \<and> submitLenderOffer (call_env bob) st_request 0 0 500 12
       = Inl (Revert ''Amount must be greater than 0'')
   \<and> submitLenderOffer (call_env bob) st_request 0 5000 0 12
       = Inl (Revert ''APR must be between 1-10000 basis points'')
   \<and> submitLenderOffer (call_env bob) st_request 0 5000 10001 12
       = Inl (Revert ''APR must be between 1-10000 basis points'')
   \<and> submitLenderOffer (call_env bob) st_request 0 5000 500 121
       = Inl (Revert ''Term must be between 1-120 months'')
   \<and> lenderOffers (fst (projr (submitLenderOffer (call_env bob) st_request 0 5000 1 12)))
       = [offerA\<lparr>LenderOffer.apr := 1\<rparr>]
   \<and> lenderOffers (fst (projr (submitLenderOffer (call_env bob) st_request 0 5000 10000 12)))
       = [offerA\<lparr>LenderOffer.apr := 10000\<rparr>]"
  using submitLenderOffer_spec [where e = "call_env bob" and s = st_request and reqId = 1
          and amt = 5000 and rate = 500 and trm = 12]
        submitLenderOffer_spec [where e = "call_env bob" and s = st_loan and reqId = 0
          and amt = 5000 and rate = 500 and trm = 12 and F = mock_fhe]
        submitLenderOffer_spec [where e = "call_env bob" and s = st_request and reqId = 0
          and amt = 0 and rate = 500 and trm = 12]
        submitLenderOffer_spec [where e = "call_env bob" and s = st_request and reqId = 0
          and amt = 5000 and rate = 0 and trm = 12]
        submitLenderOffer_spec [where e = "call_env bob" and s = st_request and reqId = 0
          and amt = 5000 and rate = 10001 and trm = 12]
        submitLenderOffer_spec [where e = "call_env bob" and s = st_request and reqId = 0
          and amt = 5000 and rate = 500 and trm = 121]
        submitLenderOffer_spec [where e = "call_env bob" and s = st_request and reqId = 0
          and amt = 5000 and rate = 1 and trm = 12]
        submitLenderOffer_spec [where e = "call_env bob" and s = st_request and reqId = 0
          and amt = 5000 and rate = 10000 and trm = 12]
  by (simp add: scenario_defs)

section \<open>Offer acceptance\<close>

lemma acceptLoanOffer_Inr:
  assumes "acceptLoanOffer e s offerId = Inr (s', evs)"
  shows "offerId < length (lenderOffers s)"
    and "LenderOffer.isActive (lenderOffers s ! offerId)"
    and "borrowerRequestId (lenderOffers s ! offerId) < length (borrowerRequests s)"
    and "BorrowerRequest.isActive (borrowerRequests s ! borrowerRequestId (lenderOffers s ! offerId))"
    and "BorrowerRequest.borrower (borrowerRequests s ! borrowerRequestId (lenderOffers s ! offerId))
           = msg_sender e"
    and "msg_value e = 0"
    and "loans s' = loans s @
           [\<lparr>Loan.borrower = msg_sender e,
             Loan.lender = LenderOffer.lender (lenderOffers s ! offerId),
             Loan.amount = LenderOffer.amount (lenderOffers s ! offerId),
             Loan.apr = LenderOffer.apr (lenderOffers s ! offerId),
             Loan.term = LenderOffer.term (lenderOffers s ! offerId),
             startTime = ucast (block_timestamp e),
             Loan.isActive = True, isRepaid = False\<rparr>]"
    and "borrowerRequests s' = (borrowerRequests s)
           [borrowerRequestId (lenderOffers s ! offerId) :=
              (borrowerRequests s ! borrowerRequestId (lenderOffers s ! offerId))
                \<lparr>BorrowerRequest.isActive := False\<rparr>]"
    and "lenderOffers s' = (lenderOffers s)
           [offerId := (lenderOffers s ! offerId)\<lparr>LenderOffer.isActive := False\<rparr>]"
  using assms by (auto simp: acceptLoanOffer_def Let_def split: if_splits)

lemma acceptLoanOffer_closed_request:
  assumes "j < length (lenderOffers s)"
    and "LenderOffer.isActive (lenderOffers s ! j)"
    and "borrowerRequestId (lenderOffers s ! j) < length (borrowerRequests s)"
    and "\<not> BorrowerRequest.isActive (borrowerRequests s ! borrowerRequestId (lenderOffers s ! j))"
  shows "acceptLoanOffer e s j = Inl (Revert ''Borrower request is not active'')"
  using assms by (simp add: acceptLoanOffer_def Let_def)

lemma transact_failed:
  "isl (exec F e s c) \<Longrightarrow> transact F s (e, c) = s"
  by (auto simp: transact_def split: sum.splits)

text \<open>
  Claim C1, as amended. \<open>acceptLoanOffer\<close> checks in this order: the offer id (``Invalid
  offer ID'', the spec's \<open>InvalidOffer\<close>), the offer's activity (``Offer is not active'',
  \<open>InactiveOffer\<close>), the activity of the request the offer references (``Borrower request
  is not active'', \<open>InactiveRequest\<close>) and the caller being that request's borrower (``Only
  borrower can accept offer'', \<open>NotAuthorized\<close>). When these four hold and the call
  carries no value, it appends exactly one loan (borrower from the request; lender, amount,
  rate and term from the offer; start time the block timestamp converted to \<open>uint32\<close>;
  active, not repaid), closes the request and the accepted offer, and changes nothing else.
  The referenced request exists in every state reachable from deployment (last conjunct).
\<close>

theorem acceptLoanOffer_spec:
  fixes F e s offerId txs
  defines "R \<equiv> acceptLoanOffer e s offerId"
    and "offer \<equiv> lenderOffers s ! offerId"
    and "request \<equiv> borrowerRequests s ! borrowerRequestId (lenderOffers s ! offerId)"
  shows "(\<not> offerId < length (lenderOffers s) \<longrightarrow> R = Inl (Revert ''Invalid offer ID''))
    \<and> (offerId < length (lenderOffers s) \<and> \<not> LenderOffer.isActive offer
         \<longrightarrow> R = Inl (Revert ''Offer is not active''))
    \<and> (offerId < length (lenderOffers s) \<and> LenderOffer.isActive offer
          \<and> borrowerRequestId offer < length (borrowerRequests s)
          \<and> \<not> BorrowerRequest.isActive request
         \<longrightarrow> R = Inl (Revert ''Borrower request is not active''))
    \<and> (offerId < length (lenderOffers s) \<and> LenderOffer.isActive offer
          \<and> borrowerRequestId offer < length (borrowerRequests s)
          \<and> BorrowerRequest.isActive request
          \<and> BorrowerRequest.borrower request \<noteq> msg_sender e
         \<longrightarrow> R = Inl (Revert ''Only borrower can accept offer''))
    \<and> (offerId < length (lenderOffers s) \<and> LenderOffer.isActive offer
          \<and> borrowerRequestId offer < length (borrowerRequests s)
          \<and> BorrowerRequest.isActive request
          \<and> BorrowerRequest.borrower request = msg_sender e
          \<and> msg_value e = 0
         \<longrightarrow> R = Inr (s\<lparr>loans := loans s @
                           [\<lparr>Loan.borrower = BorrowerRequest.borrower request,
                             Loan.lender = LenderOffer.lender offer,
                             Loan.amount = LenderOffer.amount offer,
                             Loan.apr = LenderOffer.apr offer,
                             Loan.term = LenderOffer.term offer,
                             startTime = ucast (block_timestamp e),
                             Loan.isActive = True, isRepaid = False\<rparr>],
                         borrowerRequests := (borrowerRequests s)
                           [borrowerRequestId offer := request\<lparr>BorrowerRequest.isActive := False\<rparr>],
                         lenderOffers := (lenderOffers s)
                           [offerId := offer\<lparr>LenderOffer.isActive := False\<rparr>]\<rparr>,
                      [LoanCreated (length (loans s)) (BorrowerRequest.borrower request)
                         (LenderOffer.lender offer) (LenderOffer.amount offer)]))
    \<and> (offerId < length (lenderOffers (run F init_state txs))
         \<longrightarrow> borrowerRequestId (lenderOffers (run F init_state txs) ! offerId)
               < length (borrowerRequests (run F init_state txs)))"
  using reachable_offers_ok [of F txs]
  by (auto simp: R_def offer_def request_def acceptLoanOffer_def Let_def offers_ok_def
        list_all_length)

theorem acceptLoanOffer_spec_witness:
  "acceptLoanOffer (call_env alice) st_offers 2 = Inl (Revert ''Invalid offer ID'')
   \<and> acceptLoanOffer (call_env alice) st_loan 0 = Inl (Revert ''Offer is not active'')
   \<and> acceptLoanOffer (call_env alice) st_loan 1 = Inl (Revert ''Borrower request is not active'')
   \<and> acceptLoanOffer (call_env bob) st_offers 0 = Inl (Revert ''Only borrower can accept offer'')
   \<and> acceptLoanOffer (call_env alice) st_offers 0 = Inr (st_loan, [LoanCreated 0 alice bob 5000])
   \<and> borrowerRequestId (lenderOffers st_offers ! 0) < length (borrowerRequests st_offers)"
  using acceptLoanOffer_spec [where e = "call_env alice" and s = st_offers and offerId = 2
          and F = mock_fhe and txs = "[]"]
        acceptLoanOffer_spec [where e = "call_env alice" and s = st_loan and offerId = 0
          and F = mock_fhe and txs = "[]"]
        acceptLoanOffer_spec [where e = "call_env alice" and s = st_loan and offerId = 1
          and F = mock_fhe and txs = "[]"]
        acceptLoanOffer_spec [where e = "call_env bob" and s = st_offers and offerId = 0
          and F = mock_fhe and txs = "[]"]
        acceptLoanOffer_spec [where e = "call_env alice" and s = st_offers and offerId = 0
          and F = mock_fhe
          and txs = "[(call_env alice, SubmitBorrowerRequest 750 5000 12 [1]),
                      (call_env bob, SubmitLenderOffer 0 5000 500 12),
                      (call_env carol, SubmitLenderOffer 0 7000 650 24)]"]
        st_offers_from_init
  by (simp add: scenario_defs)

text \<open>
  The claim as first stated promises the loan whenever the four preconditions hold. With
  one wei attached they hold in the scenario, yet the call reverts and the state stays as
  it was.
\<close>

theorem acceptLoanOffer_value_counterexample:
  "1 < length (lenderOffers st_offers)
   \<and> LenderOffer.isActive (lenderOffers st_offers ! 1)
   \<and> BorrowerRequest.isActive
        (borrowerRequests st_offers ! borrowerRequestId (lenderOffers st_offers ! 1))
   \<and> BorrowerRequest.borrower
        (borrowerRequests st_offers ! borrowerRequestId (lenderOffers st_offers ! 1))
        = msg_sender ((call_env alice)\<lparr>msg_value := 1\<rparr>)
   \<and> acceptLoanOffer ((call_env alice)\<lparr>msg_value := 1\<rparr>) st_offers 1
        = Inl (Revert ''Do not send ETH directly'')
   \<and> transact mock_fhe st_offers ((call_env alice)\<lparr>msg_value := 1\<rparr>, AcceptLoanOffer 1)
        = st_offers"
  by (simp add: acceptLoanOffer_def transact_def exec_def no_return_def Let_def scenario_defs)

text \<open>
  Claim C9. A call of \<open>acceptLoanOffer\<close> that carries value always fails and leaves the
  state as it was; when the offer and its request are active and the caller is the
  borrower, the failure is ``Do not send ETH directly''. A successful call carried no
  value.
\<close>

theorem acceptLoanOffer_value_guard:
  fixes F e s offerId
  defines "R \<equiv> acceptLoanOffer e s offerId"
    and "offer \<equiv> lenderOffers s ! offerId"
    and "request \<equiv> borrowerRequests s ! borrowerRequestId (lenderOffers s ! offerId)"
  shows "(msg_value e \<noteq> 0 \<longrightarrow> isl R)
    \<and> (msg_value e \<noteq> 0 \<longrightarrow> transact F s (e, AcceptLoanOffer offerId) = s)
    \<and> (msg_value e \<noteq> 0 \<and> offerId < length (lenderOffers s) \<and> LenderOffer.isActive offer
          \<and> borrowerRequestId offer < length (borrowerRequests s)
          \<and> BorrowerRequest.isActive request
          \<and> BorrowerRequest.borrower request = msg_sender e
         \<longrightarrow> R = Inl (Revert ''Do not send ETH directly''))
    \<and> (\<not> isl R \<longrightarrow> msg_value e = 0)"
  by (auto simp: R_def offer_def request_def acceptLoanOffer_def Let_def transact_def exec_def
        no_return_def split: sum.splits)

theorem acceptLoanOffer_value_guard_witness:
  "isl (acceptLoanOffer ((call_env alice)\<lparr>msg_value := 5000\<rparr>) st_offers 0)
   \<and> transact mock_fhe st_offers ((call_env alice)\<lparr>msg_value := 5000\<rparr>, AcceptLoanOffer 0)
       = st_offers
   \<and> acceptLoanOffer ((call_env alice)\<lparr>msg_value := 5000\<rparr>) st_offers 0
       = Inl (Revert ''Do not send ETH directly'')
   \<and> msg_value (call_env alice) = 0"
  using acceptLoanOffer_value_guard [where e = "(call_env alice)\<lparr>msg_value := 5000\<rparr>"
          and s = st_offers and offerId = 0 and F = mock_fhe]
        acceptLoanOffer_value_guard [where e = "call_env alice"
          and s = st_offers and offerId = 0 and F = mock_fhe]
        scenario_accept
  by (simp add: scenario_defs)

text \<open>
  Claim C2. Let offers \<open>A\<close> and \<open>B\<close> be distinct, active and on the same request \<open>R\<close>, and
  let \<open>acceptLoanOffer A\<close> succeed in state \<open>s\<close>, giving \<open>sa\<close>. Then the caller was \<open>R\<close>'s
  borrower, \<open>R\<close> is closed in \<open>sa\<close>, one loan was added and offer \<open>B\<close> is untouched. In
  \<open>sa\<close>, and in every state \<open>sb\<close> reached from it by further transactions, \<open>R\<close> is still
  closed, \<open>B\<close> still has every field it had in \<open>s\<close> (so it is still active), and
  \<open>acceptLoanOffer B\<close>, by any caller, fails with ``Borrower request is not active'' and
  changes nothing: no second loan.
\<close>

theorem sibling_offer_spec:
  fixes F e e' s sa evs A B R txs
  defines "sb \<equiv> run F sa txs"
  assumes "A < length (lenderOffers s)" and "B < length (lenderOffers s)" and "A \<noteq> B"
    and "LenderOffer.isActive (lenderOffers s ! A)"
    and "LenderOffer.isActive (lenderOffers s ! B)"
    and "borrowerRequestId (lenderOffers s ! A) = R"
    and "borrowerRequestId (lenderOffers s ! B) = R"
    and "R < length (borrowerRequests s)"
    and "acceptLoanOffer e s A = Inr (sa, evs)"
  shows "msg_sender e = BorrowerRequest.borrower (borrowerRequests s ! R)
    \<and> \<not> BorrowerRequest.isActive (borrowerRequests sa ! R)
    \<and> length (loans sa) = length (loans s) + 1
    \<and> lenderOffers sa ! B = lenderOffers s ! B
    \<and> \<not> BorrowerRequest.isActive (borrowerRequests sb ! R)
    \<and> lenderOffers sb ! B = lenderOffers s ! B
    \<and> LenderOffer.isActive (lenderOffers sb ! B)
    \<and> acceptLoanOffer e' sb B = Inl (Revert ''Borrower request is not active'')
    \<and> transact F sb (e', AcceptLoanOffer B) = sb"
proof -
  note acc = acceptLoanOffer_Inr [OF assms(10)]
  have sender: "msg_sender e = BorrowerRequest.borrower (borrowerRequests s ! R)"
    using acc(5) assms(7) by simp
  have closed1: "R < length (borrowerRequests sa)"
      "\<not> BorrowerRequest.isActive (borrowerRequests sa ! R)"
    using acc(8) assms(7,9) by simp_all
  have loans1: "length (loans sa) = length (loans s) + 1"
    using acc(7) by simp
  have B1: "B < length (lenderOffers sa)" "lenderOffers sa ! B = lenderOffers s ! B"
    using acc(9) assms(3,4) by simp_all
  have closed2: "R < length (borrowerRequests sb)"
      "borrowerRequests sb ! R = borrowerRequests sa ! R"
    using run_request_closed [OF closed1, of F txs] by (simp_all add: sb_def)
  have B2: "B < length (lenderOffers sb)" "lenderOffers sb ! B = lenderOffers sa ! B"
    using run_offer_of_closed_request [of B sa F txs] B1 closed1 assms(8)
    by (simp_all add: sb_def)
  have fails: "acceptLoanOffer e' sb B = Inl (Revert ''Borrower request is not active'')"
    using B2 B1 closed2 closed1 assms(6,8)
    by (intro acceptLoanOffer_closed_request) simp_all
  have "isl (exec F e' sb (AcceptLoanOffer B))"
    using fails by (simp add: exec_def no_return_def)
  then have "transact F sb (e', AcceptLoanOffer B) = sb"
    by (rule transact_failed)
  with sender closed1 loans1 B1 closed2 B2 fails assms(6) show ?thesis by simp
qed

theorem sibling_offer_spec_witness:
  "acceptLoanOffer (call_env alice) st_offers 0 = Inr (st_loan, [LoanCreated 0 alice bob 5000])
   \<and> \<not> BorrowerRequest.isActive (borrowerRequests st_loan ! 0)
   \<and> length (loans st_loan) = 1
   \<and> lenderOffers st_loan ! 1 = offerB
   \<and> lenderOffers (run mock_fhe st_loan [(call_env carol, SubmitLenderOffer 0 7000 600 24)]) ! 1
        = offerB
   \<and> acceptLoanOffer (call_env alice)
        (run mock_fhe st_loan [(call_env carol, SubmitLenderOffer 0 7000 600 24)]) 1
        = Inl (Revert ''Borrower request is not active'')
   \<and> acceptLoanOffer (call_env alice) st_loan 1 = Inl (Revert ''Borrower request is not active'')
   \<and> transact mock_fhe st_loan (call_env alice, AcceptLoanOffer 1) = st_loan"
  using sibling_offer_spec [where F = mock_fhe and e = "call_env alice" and e' = "call_env alice"
          and s = st_offers and sa = st_loan and evs = "[LoanCreated 0 alice bob 5000]"
          and A = 0 and B = 1 and R = 0
          and txs = "[(call_env carol, SubmitLenderOffer 0 7000 600 24)]"]
        sibling_offer_spec [where F = mock_fhe and e = "call_env alice" and e' = "call_env alice"
          and s = st_offers and sa = st_loan and evs = "[LoanCreated 0 alice bob 5000]"
          and A = 0 and B = 1 and R = 0 and txs = "[]"]
        scenario_accept
  by (simp add: scenario_defs)

text \<open>
  Claim C10. An offer is checked against its request for existence and activity only.
  Whatever the request's own amount and term, and whoever the caller is (the request's
  borrower included), an offer with a positive amount, a rate in 1..10000 and a term in
  1..120 on an existing active request is stored as given; and when the borrower then
  accepts it, the loan carries the offer's amount, rate and term, not the request's.
\<close>

theorem offer_terms_unconstrained:
  fixes e s reqId amt rate trm ts ledger_addr
  defines "borrower_env \<equiv>
      \<lparr>msg_sender = BorrowerRequest.borrower (borrowerRequests s ! reqId), msg_value = 0,
       block_timestamp = ts, this = ledger_addr\<rparr>"
  assumes "reqId < length (borrowerRequests s)"
    and "BorrowerRequest.isActive (borrowerRequests s ! reqId)"
    and "0 < amt" and "1 \<le> rate" and "rate \<le> 10000" and "1 \<le> trm" and "trm \<le> 120"
  shows "\<exists>so sl.
      submitLenderOffer e s reqId amt rate trm
        = Inr (so, [NewLenderOffer (length (lenderOffers s)) reqId (msg_sender e) amt])
    \<and> lenderOffers so = lenderOffers s @
         [\<lparr>LenderOffer.lender = msg_sender e, borrowerRequestId = reqId,
           LenderOffer.amount = amt, LenderOffer.apr = rate, LenderOffer.term = trm,
           LenderOffer.isActive = True\<rparr>]
    \<and> acceptLoanOffer borrower_env so (length (lenderOffers s))
        = Inr (sl, [LoanCreated (length (loans s))
                      (BorrowerRequest.borrower (borrowerRequests s ! reqId)) (msg_sender e) amt])
    \<and> loans sl = loans s @
         [\<lparr>Loan.borrower = BorrowerRequest.borrower (borrowerRequests s ! reqId),
           Loan.lender = msg_sender e, Loan.amount = amt, Loan.apr = rate, Loan.term = trm,
           startTime = ucast ts, Loan.isActive = True, isRepaid = False\<rparr>]"
  using assms
  by (auto simp: submitLenderOffer_def acceptLoanOffer_def Let_def nth_append
        word_greater_zero_iff word_le_def word_less_def)

theorem offer_terms_unconstrained_witness:
  "BorrowerRequest.amount (borrowerRequests st_request ! 0) = 5000
   \<and> BorrowerRequest.term (borrowerRequests st_request ! 0) = 12
   \<and> BorrowerRequest.borrower (borrowerRequests st_request ! 0) = alice
   \<and> loans (fst (projr (acceptLoanOffer (call_env alice)
        (fst (projr (submitLenderOffer (call_env alice) st_request 0 1 10000 120))) 0)))
       = [\<lparr>Loan.borrower = alice, Loan.lender = alice, Loan.amount = 1, Loan.apr = 10000,
            Loan.term = 120, startTime = 1700000000, Loan.isActive = True, isRepaid = False\<rparr>]"
  using offer_terms_unconstrained [where e = "call_env alice" and s = st_request and reqId = 0
          and amt = 1 and rate = 10000 and trm = 120 and ts = 1700000000 and ledger_addr = ledger]
  by (auto simp: scenario_defs)

section \<open>What the creating calls hand back\<close>

text \<open>
  Claim C8, as amended. None of the three creating functions is declared with \<open>returns\<close>:
  a successful call hands back no data. The id of the new record is the first argument
  of the one event the call emits (\<open>NewBorrowerRequest\<close>, \<open>NewLenderOffer\<close>,
  \<open>LoanCreated\<close>); it is the length of the collection before the call, and the accessor
  at that id returns the record just created.
\<close>

theorem created_id_spec:
  fixes F e s s' evs rv
  shows "(exec F e s (SubmitBorrowerRequest encScore amt trm inputProof) = Inr (s', evs, rv)
       \<longrightarrow> rv = Void
         \<and> evs = [NewBorrowerRequest (length (borrowerRequests s)) (msg_sender e) amt]
         \<and> length (borrowerRequests s') = length (borrowerRequests s) + 1
         \<and> getBorrowerRequest s' (length (borrowerRequests s))
              = Inr (msg_sender e, amt, trm, True))
    \<and> (exec F e s (SubmitLenderOffer reqId amt rate trm) = Inr (s', evs, rv)
       \<longrightarrow> rv = Void
         \<and> evs = [NewLenderOffer (length (lenderOffers s)) reqId (msg_sender e) amt]
         \<and> length (lenderOffers s') = length (lenderOffers s) + 1
         \<and> getLenderOffer s' (length (lenderOffers s))
              = Inr (msg_sender e, reqId, amt, rate, trm, True))
    \<and> (exec F e s (AcceptLoanOffer offerId) = Inr (s', evs, rv)
       \<longrightarrow> rv = Void
         \<and> evs = [LoanCreated (length (loans s)) (msg_sender e)
                    (LenderOffer.lender (lenderOffers s ! offerId))
                    (LenderOffer.amount (lenderOffers s ! offerId))]
         \<and> length (loans s') = length (loans s) + 1
         \<and> getLoan s' (length (loans s))
              = Inr (msg_sender e, LenderOffer.lender (lenderOffers s ! offerId),
                     LenderOffer.amount (lenderOffers s ! offerId),
                     LenderOffer.apr (lenderOffers s ! offerId),
                     LenderOffer.term (lenderOffers s ! offerId),
                     ucast (block_timestamp e), True, False))"
proof -
  have request: "exec F e s (SubmitBorrowerRequest encScore amt trm inputProof) = Inr (s', evs, rv)
       \<longrightarrow> rv = Void
         \<and> evs = [NewBorrowerRequest (length (borrowerRequests s)) (msg_sender e) amt]
         \<and> length (borrowerRequests s') = length (borrowerRequests s) + 1
         \<and> getBorrowerRequest s' (length (borrowerRequests s))
              = Inr (msg_sender e, amt, trm, True)"
    by (auto simp: exec_def op_defs getBorrowerRequest_def
          split: if_splits sum.splits option.splits)
  have offer: "exec F e s (SubmitLenderOffer reqId amt rate trm) = Inr (s', evs, rv)
       \<longrightarrow> rv = Void
         \<and> evs = [NewLenderOffer (length (lenderOffers s)) reqId (msg_sender e) amt]
         \<and> length (lenderOffers s') = length (lenderOffers s) + 1
         \<and> getLenderOffer s' (length (lenderOffers s))
              = Inr (msg_sender e, reqId, amt, rate, trm, True)"
    by (auto simp: exec_def op_defs getLenderOffer_def
          split: if_splits sum.splits option.splits)
  have loan: "exec F e s (AcceptLoanOffer offerId) = Inr (s', evs, rv)
       \<longrightarrow> rv = Void
         \<and> evs = [LoanCreated (length (loans s)) (msg_sender e)
                    (LenderOffer.lender (lenderOffers s ! offerId))
                    (LenderOffer.amount (lenderOffers s ! offerId))]
         \<and> length (loans s') = length (loans s) + 1
         \<and> getLoan s' (length (loans s))
              = Inr (msg_sender e, LenderOffer.lender (lenderOffers s ! offerId),
                     LenderOffer.amount (lenderOffers s ! offerId),
                     LenderOffer.apr (lenderOffers s ! offerId),
                     LenderOffer.term (lenderOffers s ! offerId),
                     ucast (block_timestamp e), True, False)"
    by (auto simp: exec_def op_defs getLoan_def
          split: if_splits sum.splits option.splits)
  from request offer loan show ?thesis by blast
qed

theorem created_id_spec_witness:
  "getBorrowerRequest st_request 0 = Inr (alice, 5000, 12, True)
   \<and> getLenderOffer (st_request\<lparr>lenderOffers := [offerA]\<rparr>) 0 = Inr (bob, 0, 5000, 500, 12, True)
   \<and> getLoan st_loan 0 = Inr (alice, bob, 5000, 500, 12, 1700000000, True, False)"
  using created_id_spec [where F = mock_fhe and e = "call_env alice" and s = init_state
          and encScore = 750 and amt = 5000 and trm = 12 and inputProof = "[1]"
          and s' = st_request and evs = "[NewBorrowerRequest 0 alice 5000]" and rv = Void]
        created_id_spec [where F = mock_fhe and e = "call_env bob" and s = st_request
          and reqId = 0 and amt = 5000 and rate = 500 and trm = 12
          and s' = "st_request\<lparr>lenderOffers := [offerA]\<rparr>"
          and evs = "[NewLenderOffer 0 0 bob 5000]" and rv = Void]
        created_id_spec [where F = mock_fhe and e = "call_env alice" and s = st_offers
          and offerId = 0 and s' = st_loan and evs = "[LoanCreated 0 alice bob 5000]"
          and rv = Void]
        scenario_exec_request scenario_exec_offer scenario_exec_accept
  by (simp add: scenario_defs)

text \<open>
  The claim as first stated has \<open>submitBorrowerRequest\<close> return the new id. On the fresh
  ledger Alice's submission creates request 0, and the call returns \<open>Void\<close>, not 0.
\<close>

theorem created_id_counterexample:
  "exec mock_fhe (call_env alice) init_state (SubmitBorrowerRequest 750 5000 12 [1])
     = Inr (st_request, [NewBorrowerRequest 0 alice 5000], Void)
   \<and> exec mock_fhe (call_env alice) init_state (SubmitBorrowerRequest 750 5000 12 [1])
     \<noteq> Inr (st_request, [NewBorrowerRequest 0 alice 5000], RetUint 0)
   \<and> getBorrowerRequest st_request 0 = Inr (alice, 5000, 12, True)"
  by (simp add: exec_def no_return_def submitBorrowerRequest_def allow_def
        allowThis_def getBorrowerRequest_def Let_def scenario_defs insert_commute)

section \<open>The life cycle of requests and offers\<close>

text \<open>
  Claim C7. Whatever a successful call appends to the requests or to the offers is active;
  and a request or an offer that is closed in a state is still there, and still closed,
  after any run of transactions from that state. Closed is terminal for both.
\<close>

theorem isActive_terminal:
  "(exec F e s c = Inr (s', evs, rv) \<longrightarrow>
      (\<forall>i. length (borrowerRequests s) \<le> i \<and> i < length (borrowerRequests s')
            \<longrightarrow> BorrowerRequest.isActive (borrowerRequests s' ! i))
    \<and> (\<forall>j. length (lenderOffers s) \<le> j \<and> j < length (lenderOffers s')
            \<longrightarrow> LenderOffer.isActive (lenderOffers s' ! j)))
   \<and> (i < length (borrowerRequests s) \<and> \<not> BorrowerRequest.isActive (borrowerRequests s ! i)
       \<longrightarrow> i < length (borrowerRequests (run F s txs))
         \<and> \<not> BorrowerRequest.isActive (borrowerRequests (run F s txs) ! i))
   \<and> (j < length (lenderOffers s) \<and> \<not> LenderOffer.isActive (lenderOffers s ! j)
       \<longrightarrow> j < length (lenderOffers (run F s txs))
         \<and> \<not> LenderOffer.isActive (lenderOffers (run F s txs) ! j))"
  using run_request_closed [of i s F txs] run_offer_closed [of j s F txs]
  by (auto dest: exec_request_created exec_offer_created)

theorem isActive_terminal_witness:
  "BorrowerRequest.isActive (borrowerRequests st_request ! 0)
   \<and> \<not> BorrowerRequest.isActive
         (borrowerRequests (run mock_fhe st_loan
            [(call_env bob, SubmitLenderOffer 0 5000 500 12), (call_env alice, AcceptLoanOffer 1)]) ! 0)
   \<and> \<not> LenderOffer.isActive
         (lenderOffers (run mock_fhe st_loan
            [(call_env bob, SubmitLenderOffer 0 5000 500 12), (call_env alice, AcceptLoanOffer 0)]) ! 0)"
  using isActive_terminal [where F = mock_fhe and e = "call_env alice" and s = init_state
          and c = "SubmitBorrowerRequest 750 5000 12 [1]" and s' = st_request
          and evs = "[NewBorrowerRequest 0 alice 5000]" and rv = Void and i = 0 and j = 0
          and txs = "[]"]
        isActive_terminal [where F = mock_fhe and e = "call_env alice" and s = st_loan
          and c = "GetLoansCount" and s' = st_loan and evs = "[]" and rv = "RetUint 1"
          and i = 0 and j = 0
          and txs = "[(call_env bob, SubmitLenderOffer 0 5000 500 12),
                      (call_env alice, AcceptLoanOffer 1)]"]
        isActive_terminal [where F = mock_fhe and e = "call_env alice" and s = st_loan
          and c = "GetLoansCount" and s' = st_loan and evs = "[]" and rv = "RetUint 1"
          and i = 0 and j = 0
          and txs = "[(call_env bob, SubmitLenderOffer 0 5000 500 12),
                      (call_env alice, AcceptLoanOffer 0)]"]
        scenario_exec_request
  by (simp add: scenario_defs)

section \<open>The encrypted comparison and its cache\<close>

lemma exec_cache_other:
  assumes "exec F e s c = Inr (s', evs, rv)"
    and "\<not> (c = CheckScoreMatch r t \<and> msg_sender e = a)"
  shows "comparisonResults s' r t a = comparisonResults s r t a"
  using assms
  by (cases c) (auto simp: exec_def op_defs split: if_splits sum.splits option.splits)

lemma transact_cache_other:
  assumes "\<not> (snd tx = CheckScoreMatch r t \<and> msg_sender (fst tx) = a)"
  shows "comparisonResults (transact F s tx) r t a = comparisonResults s r t a"
  using transact_cases [of F s tx] assms by (auto dest: exec_cache_other)

lemma run_cache_other:
  "\<forall>tx \<in> set txs. \<not> (snd tx = CheckScoreMatch r t \<and> msg_sender (fst tx) = a)
   \<Longrightarrow> comparisonResults (run F s txs) r t a = comparisonResults s r t a"
  by (induction txs arbitrary: s) (simp_all add: transact_cache_other)

text \<open>
  Claim C3. \<open>checkScoreMatch\<close> fails with ``Invalid request ID'' (the spec's
  \<open>InvalidRequest\<close>) when the id is out of range and otherwise with ``Request is not
  active'' (\<open>InactiveRequest\<close>) when the request is closed. Otherwise it returns the handle
  \<open>h\<close> that the service's \<open>ge\<close> gives for the stored encrypted score and the encrypted
  threshold, writes \<open>h\<close> into the cache at (request id, threshold, caller) and at no other
  key, grants \<open>h\<close> to the caller and to the ledger, and touches nothing else; the lookup
  at that key then returns \<open>h\<close>. A key that no transaction since deployment has addressed
  with \<open>checkScoreMatch\<close> reads as the zero handle, and the lookup itself never fails.
\<close>

theorem checkScoreMatch_spec:
  fixes F e s requestId minScore txs r t a
  defines "R \<equiv> checkScoreMatch F e s requestId minScore"
    and "h \<equiv> ge F (encryptedScore (borrowerRequests s ! requestId)) (asEuint32 F minScore)"
  shows "(\<not> requestId < length (borrowerRequests s) \<longrightarrow> R = Inl (Revert ''Invalid request ID''))
    \<and> (requestId < length (borrowerRequests s)
          \<and> \<not> BorrowerRequest.isActive (borrowerRequests s ! requestId)
         \<longrightarrow> R = Inl (Revert ''Request is not active''))
    \<and> (requestId < length (borrowerRequests s)
          \<and> BorrowerRequest.isActive (borrowerRequests s ! requestId)
         \<longrightarrow> (\<exists>s'. R = Inr (s', h)
               \<and> getComparisonResult s' requestId minScore (msg_sender e) = h
               \<and> (\<forall>r' t' a'. (r', t', a') \<noteq> (requestId, minScore, msg_sender e)
                     \<longrightarrow> comparisonResults s' r' t' a' = comparisonResults s r' t' a')
               \<and> acl s' = insert (h, msg_sender e) (insert (h, this e) (acl s))
               \<and> borrowerRequests s' = borrowerRequests s
               \<and> lenderOffers s' = lenderOffers s \<and> loans s' = loans s))
    \<and> ((\<forall>tx \<in> set txs. \<not> (snd tx = CheckScoreMatch r t \<and> msg_sender (fst tx) = a))
         \<longrightarrow> getComparisonResult (run F init_state txs) r t a = 0)
    \<and> (msg_value e = 0
         \<longrightarrow> exec F e s (GetComparisonResult r t a)
               = Inr (s, [], RetHandle (comparisonResults s r t a)))"
proof -
  have cascade: "(\<not> requestId < length (borrowerRequests s)
        \<longrightarrow> R = Inl (Revert ''Invalid request ID''))
    \<and> (requestId < length (borrowerRequests s)
          \<and> \<not> BorrowerRequest.isActive (borrowerRequests s ! requestId)
         \<longrightarrow> R = Inl (Revert ''Request is not active''))"
    by (simp add: R_def checkScoreMatch_def)
  have success: "requestId < length (borrowerRequests s)
          \<and> BorrowerRequest.isActive (borrowerRequests s ! requestId)
         \<longrightarrow> (\<exists>s'. R = Inr (s', h)
               \<and> getComparisonResult s' requestId minScore (msg_sender e) = h
               \<and> (\<forall>r' t' a'. (r', t', a') \<noteq> (requestId, minScore, msg_sender e)
                     \<longrightarrow> comparisonResults s' r' t' a' = comparisonResults s r' t' a')
               \<and> acl s' = insert (h, msg_sender e) (insert (h, this e) (acl s))
               \<and> borrowerRequests s' = borrowerRequests s
               \<and> lenderOffers s' = lenderOffers s \<and> loans s' = loans s)"
    by (auto simp: R_def h_def checkScoreMatch_def getComparisonResult_def allow_def
          allowThis_def Let_def)
  have fresh: "(\<forall>tx \<in> set txs. \<not> (snd tx = CheckScoreMatch r t \<and> msg_sender (fst tx) = a))
         \<longrightarrow> getComparisonResult (run F init_state txs) r t a = 0"
    using run_cache_other [of txs r t a F init_state]
    by (auto simp: getComparisonResult_def init_state_def)
  have view: "msg_value e = 0
         \<longrightarrow> exec F e s (GetComparisonResult r t a)
               = Inr (s, [], RetHandle (comparisonResults s r t a))"
    by (simp add: exec_def getComparisonResult_def)
  from cascade success fresh view show ?thesis by blast
qed

theorem checkScoreMatch_spec_witness:
  "checkScoreMatch mock_fhe (call_env bob) st_request 1 700 = Inl (Revert ''Invalid request ID'')
   \<and> checkScoreMatch mock_fhe (call_env bob) st_loan 0 700 = Inl (Revert ''Request is not active'')
   \<and> snd (projr (checkScoreMatch mock_fhe (call_env bob) st_request 0 700)) = 1
   \<and> snd (projr (checkScoreMatch mock_fhe (call_env bob) st_request 0 800)) = 0
   \<and> getComparisonResult
        (fst (projr (checkScoreMatch mock_fhe (call_env bob) st_request 0 700))) 0 700 bob = 1
   \<and> getComparisonResult
        (fst (projr (checkScoreMatch mock_fhe (call_env bob) st_request 0 700))) 0 700 carol = 0
   \<and> acl (fst (projr (checkScoreMatch mock_fhe (call_env bob) st_request 0 700)))
        = {(1, bob), (1, ledger), (750, ledger), (750, alice)}
   \<and> getComparisonResult
        (run mock_fhe init_state
           [(call_env alice, SubmitBorrowerRequest 750 5000 12 [1]),
            (call_env bob, CheckScoreMatch 0 700)]) 0 700 carol = 0
   \<and> exec mock_fhe (call_env carol) st_request (GetComparisonResult 5 700 carol)
        = Inr (st_request, [], RetHandle 0)"
  using checkScoreMatch_spec [where F = mock_fhe and e = "call_env bob" and s = st_request
          and requestId = 1 and minScore = 700 and txs = "[]" and r = 0 and t = 700 and a = carol]
        checkScoreMatch_spec [where F = mock_fhe and e = "call_env bob" and s = st_loan
          and requestId = 0 and minScore = 700 and txs = "[]" and r = 0 and t = 700 and a = carol]
        checkScoreMatch_spec [where F = mock_fhe and e = "call_env bob" and s = st_request
          and requestId = 0 and minScore = 700
          and txs = "[(call_env alice, SubmitBorrowerRequest 750 5000 12 [1]),
                      (call_env bob, CheckScoreMatch 0 700)]"
          and r = 0 and t = 700 and a = carol]
        checkScoreMatch_spec [where F = mock_fhe and e = "call_env bob" and s = st_request
          and requestId = 0 and minScore = 800 and txs = "[]" and r = 0 and t = 700 and a = carol]
        checkScoreMatch_spec [where F = mock_fhe and e = "call_env carol" and s = st_request
          and requestId = 0 and minScore = 700 and txs = "[]" and r = 5 and t = 700 and a = carol]
  by (auto simp: scenario_defs getComparisonResult_def)

section \<open>Finding candidate requests\<close>

lemma findMatches_scan_correct:
  "i \<le> length rs \<Longrightarrow> length temp = length rs
   \<Longrightarrow> mc = length (filter (active_at rs) [0..<i])
   \<Longrightarrow> take mc temp = filter (active_at rs) [0..<i]
   \<Longrightarrow> \<exists>temp'. findMatches_scan rs i temp mc
                = Inr (temp', length (filter (active_at rs) [0..<length rs]))
         \<and> length temp' = length rs
         \<and> take (length (filter (active_at rs) [0..<length rs])) temp'
             = filter (active_at rs) [0..<length rs]"
proof (induction rs i temp mc rule: findMatches_scan.induct)
  case (1 rs i tempMatches matchCount)
  show ?case
  proof (cases "i < length rs")
    case False
    with "1.prems" have "i = length rs" by simp
    with "1.prems" show ?thesis by (subst findMatches_scan.simps) simp
  next
    case inside: True
    have bound: "matchCount < length tempMatches"
    proof -
      have "length (filter (active_at rs) [0..<i]) \<le> length [0..<i]"
        by (rule length_filter_le)
      with inside "1.prems" show ?thesis by simp
    qed
    show ?thesis
    proof (cases "active_at rs i")
      case True
      have take': "take (matchCount + 1) (tempMatches[matchCount := i])
                     = filter (active_at rs) [0..<i + 1]"
        using True bound "1.prems"(4)
        by (simp add: take_Suc_conv_app_nth)
      have count': "matchCount + 1 = length (filter (active_at rs) [0..<i + 1])"
        using True "1.prems"(3) by simp
      have "\<exists>temp'. findMatches_scan rs (i + 1) (tempMatches[matchCount := i]) (matchCount + 1)
                = Inr (temp', length (filter (active_at rs) [0..<length rs]))
         \<and> length temp' = length rs
         \<and> take (length (filter (active_at rs) [0..<length rs])) temp'
             = filter (active_at rs) [0..<length rs]"
        using inside True bound "1.prems"(2) count' take'
        by (intro "1.IH"(1)) simp_all
      then show ?thesis using inside True bound by (subst findMatches_scan.simps) simp
    next
      case False
      have "\<exists>temp'. findMatches_scan rs (i + 1) tempMatches matchCount
                = Inr (temp', length (filter (active_at rs) [0..<length rs]))
         \<and> length temp' = length rs
         \<and> take (length (filter (active_at rs) [0..<length rs])) temp'
             = filter (active_at rs) [0..<length rs]"
        using inside False "1.prems"
        by (intro "1.IH"(2)) simp_all
      then show ?thesis using inside False by (subst findMatches_scan.simps) simp
    qed
  qed
qed

lemma findMatches_copy_correct:
  "j \<le> mc \<Longrightarrow> mc \<le> length temp \<Longrightarrow> length out = mc \<Longrightarrow> take j out = take j temp
   \<Longrightarrow> findMatches_copy temp mc out j = Inr (take mc temp)"
proof (induction temp mc out j rule: findMatches_copy.induct)
  case (1 tempMatches matchCount matchingRequestIds j)
  show ?case
  proof (cases "j < matchCount")
    case False
    with "1.prems" have "j = matchCount" by simp
    with "1.prems" show ?thesis by (subst findMatches_copy.simps) simp
  next
    case True
    have inb: "j < length tempMatches \<and> j < length matchingRequestIds"
      using True "1.prems" by simp
    have "take (j + 1) (matchingRequestIds[j := tempMatches ! j]) = take (j + 1) tempMatches"
      using inb "1.prems"(4) by (simp add: take_Suc_conv_app_nth)
    then have "findMatches_copy tempMatches matchCount
                 (matchingRequestIds[j := tempMatches ! j]) (j + 1)
               = Inr (take matchCount tempMatches)"
      using True inb "1.prems" by (intro "1.IH") simp_all
    then show ?thesis using True inb by (subst findMatches_copy.simps) simp
  qed
qed

lemma findMatches_eq:
  "findMatches s minScore
     = Inr (filter (active_at (borrowerRequests s)) [0..<length (borrowerRequests s)])"
proof -
  let ?rs = "borrowerRequests s"
  let ?ms = "filter (active_at ?rs) [0..<length ?rs]"
  obtain temp' where scan: "findMatches_scan ?rs 0 (replicate (length ?rs) 0) 0
        = Inr (temp', length ?ms)"
      and len: "length temp' = length ?rs" and tk: "take (length ?ms) temp' = ?ms"
    using findMatches_scan_correct [of 0 ?rs "replicate (length ?rs) 0" 0] by auto
  have "length ?ms \<le> length [0..<length ?rs]" by (rule length_filter_le)
  then have "length ?ms \<le> length temp'" using len by simp
  then have "findMatches_copy temp' (length ?ms) (replicate (length ?ms) 0) 0
      = Inr (take (length ?ms) temp')"
    by (intro findMatches_copy_correct) simp_all
  with scan tk show ?thesis by (simp add: findMatches_def)
qed

text \<open>
  Claim C4. \<open>findMatches\<close> never fails and returns the indices of the active requests, each
  once, in strictly ascending order; the threshold does not matter; the call leaves the
  state as it was.
\<close>

theorem findMatches_spec:
  "findMatches s minScore
     = Inr (filter (\<lambda>i. BorrowerRequest.isActive (borrowerRequests s ! i))
              [0..<length (borrowerRequests s)])
   \<and> (\<exists>ms. findMatches s minScore = Inr ms \<and> sorted_wrt (<) ms
         \<and> set ms = {i. i < length (borrowerRequests s)
                        \<and> BorrowerRequest.isActive (borrowerRequests s ! i)})
   \<and> findMatches s minScore = findMatches s minScore'
   \<and> (msg_value e = 0 \<longrightarrow>
        exec F e s (FindMatches minScore)
          = Inr (s, [], RetIds (filter (\<lambda>i. BorrowerRequest.isActive (borrowerRequests s ! i))
                                  [0..<length (borrowerRequests s)])))"
proof -
  let ?ms = "filter (\<lambda>i. BorrowerRequest.isActive (borrowerRequests s ! i))
               [0..<length (borrowerRequests s)]"
  have "sorted_wrt (<) ?ms"
    by (rule sorted_wrt_filter) (simp add: sorted_wrt_upt)
  moreover have "set ?ms = {i. i < length (borrowerRequests s)
      \<and> BorrowerRequest.isActive (borrowerRequests s ! i)}"
    by auto
  ultimately show ?thesis
    by (simp add: findMatches_eq exec_def view_result_def)
qed

theorem findMatches_spec_witness:
  "findMatches st_second 700 = Inr [1]
   \<and> findMatches st_second 0 = Inr [1]
   \<and> findMatches st_loan 700 = Inr []
   \<and> exec mock_fhe (call_env carol) st_second (FindMatches 700) = Inr (st_second, [], RetIds [1])"
  using findMatches_spec [where s = st_second and minScore = 700 and minScore' = 0
          and e = "call_env carol" and F = mock_fhe]
        findMatches_spec [where s = st_second and minScore = 0 and minScore' = 0
          and e = "call_env carol" and F = mock_fhe]
        findMatches_spec [where s = st_loan and minScore = 700 and minScore' = 0
          and e = "call_env carol" and F = mock_fhe]
  by (simp add: scenario_defs upt_rec)

end
